theory Spec2Isabelle
  imports Main "HOL-Library.Word"
begin

unbundle bit_operations_syntax

section \<open>SOCKS5 request engine of mieru (pkg/socks5/request.go)\<close>

text \<open>
  A shallow embedding of \<^verbatim>\<open>pkg/socks5/request.go\<close>. Go's \<^verbatim>\<open>byte\<close>/\<^verbatim>\<open>uint8\<close> is
  \<open>8 word\<close>, \<^verbatim>\<open>uint16\<close> is \<open>16 word\<close>, Go's \<^verbatim>\<open>int\<close> is \<open>int\<close> (no \<^verbatim>\<open>int\<close> computation of
  the file leaves the 32-bit range unless its input already does), a \<^verbatim>\<open>[]byte\<close> and a
  \<^verbatim>\<open>net.IP\<close> are byte lists (\<^verbatim>\<open>nil\<close> is the empty list), a Go \<^verbatim>\<open>string\<close> is a \<open>string\<close>
  (a list of 8-bit characters). A function that returns \<^verbatim>\<open>(T, error)\<close> returns
  \<open>error + T\<close>; a run-time panic is a value of its own.
\<close>

subsection \<open>Bytes, strings and errors\<close>

type_synonym byte = "8 word"

text \<open>\<^verbatim>\<open>[]byte(s)\<close> and \<^verbatim>\<open>string(b)\<close>: the conversions between a string and its bytes.\<close>

definition byte_of_char :: "char \<Rightarrow> byte" where
  "byte_of_char c = word_of_nat (of_char c)"

definition char_of_byte :: "byte \<Rightarrow> char" where
  "char_of_byte b = char_of (unat b)"

definition bytes_of_string :: "string \<Rightarrow> byte list" where
  "bytes_of_string s = map byte_of_char s"

definition string_of_bytes :: "byte list \<Rightarrow> string" where
  "string_of_bytes bs = map char_of_byte bs"

text \<open>
  Error values. The sentinels \<^verbatim>\<open>io.EOF\<close>, \<^verbatim>\<open>io.ErrUnexpectedEOF\<close>, the file's own
  \<^verbatim>\<open>unrecognizedAddrType\<close> and the three \<^verbatim>\<open>stderror\<close> values the UDP pump stores are
  constructors; \<open>External\<close> is an error handed back by a collaborator (resolver, dialer,
  socket) with the text of its \<^verbatim>\<open>Error()\<close>; \<open>Errorf fmt cause\<close> is
  \<^verbatim>\<open>fmt.Errorf(fmt, ...)\<close> with the error wrapped by \<^verbatim>\<open>%w\<close>, when there is one.
\<close>

datatype error =
    EOF
  | ErrUnexpectedEOF
  | unrecognizedAddrType
  | ErrNoEnoughData
  | ErrInvalidArgument
  | ErrUnsupported
  | External string
  | Errorf string "error option"

subsection \<open>Constants\<close>

definition ConnectCommand :: byte where "ConnectCommand = 1"
definition BindCommand :: byte where "BindCommand = 2"
definition AssociateCommand :: byte where "AssociateCommand = 3"
definition ipv4Address :: byte where "ipv4Address = 1"
definition fqdnAddress :: byte where "fqdnAddress = 3"
definition ipv6Address :: byte where "ipv6Address = 4"

definition successReply :: byte where "successReply = 0"
definition serverFailure :: byte where "serverFailure = 1"
definition ruleFailure :: byte where "ruleFailure = 2"
definition networkUnreachable :: byte where "networkUnreachable = 3"
definition hostUnreachable :: byte where "hostUnreachable = 4"
definition connectionRefused :: byte where "connectionRefused = 5"
definition ttlExpired :: byte where "ttlExpired = 6"
definition commandNotSupported :: byte where "commandNotSupported = 7"
definition addrTypeNotSupported :: byte where "addrTypeNotSupported = 8"

text \<open>
  Modelled from the spec: the constant \<^verbatim>\<open>socks5Version\<close> is declared in another file of
  the package; it is the SOCKS5 protocol version, 5 (the replies of the spec's scenarios
  carry \<^verbatim>\<open>VER=5\<close>).
\<close>

definition socks5Version :: byte where "socks5Version = 5"

subsection \<open>AddrSpec and Request\<close>

record AddrSpec =
  FQDN :: string
  IP :: "byte list"
  Port :: int

definition AddrSpec_zero :: AddrSpec where
  "AddrSpec_zero = \<lparr>FQDN = [], IP = [], Port = 0\<rparr>"

typedecl AuthContext

record Request =
  Version :: byte
  Command :: byte
  AuthContext :: "AuthContext option"
  RemoteAddr :: "AddrSpec option"
  DestAddr :: "AddrSpec option"

subsection \<open>The standard library's \<^verbatim>\<open>net.IP\<close> methods and \<^verbatim>\<open>io.ReadFull\<close>\<close>

definition v4InV6Prefix :: "byte list" where
  "v4InV6Prefix = [0, 0, 0, 0, 0, 0, 0, 0, 0, 0, 0xff, 0xff]"

definition IPv6loopback :: "byte list" where
  "IPv6loopback = [0, 0, 0, 0, 0, 0, 0, 0, 0, 0, 0, 0, 0, 0, 0, 1]"

definition isZeros :: "byte list \<Rightarrow> bool" where
  "isZeros p = list_all (\<lambda>b. b = 0) p"

text \<open>
  \<^verbatim>\<open>ip.To4()\<close>: the address itself when it has 4 bytes, the last 4 bytes of a 16-byte
  IPv4-mapped address (ten zero bytes, then \<^verbatim>\<open>ff ff\<close>), \<^verbatim>\<open>nil\<close> (here \<open>None\<close>) otherwise.
\<close>

definition To4 :: "byte list \<Rightarrow> byte list option" where
  "To4 ip =
     (if length ip = 4 then Some ip
      else if length ip = 16 \<and> isZeros (take 10 ip) \<and> ip ! 10 = 0xff \<and> ip ! 11 = 0xff
        then Some (drop 12 ip)
      else None)"

definition To16 :: "byte list \<Rightarrow> byte list option" where
  "To16 ip =
     (if length ip = 4 then Some (v4InV6Prefix @ ip)
      else if length ip = 16 then Some ip
      else None)"

definition IP_Equal :: "byte list \<Rightarrow> byte list \<Rightarrow> bool" where
  "IP_Equal ip x =
     (if length ip = length x then ip = x
      else if length ip = 4 \<and> length x = 16 then take 12 x = v4InV6Prefix \<and> ip = drop 12 x
      else if length ip = 16 \<and> length x = 4 then take 12 ip = v4InV6Prefix \<and> drop 12 ip = x
      else False)"

definition IsLoopback :: "byte list \<Rightarrow> bool" where
  "IsLoopback ip =
     (case To4 ip of
        Some ip4 \<Rightarrow> ip4 ! 0 = 127
      | None \<Rightarrow> IP_Equal ip IPv6loopback)"

text \<open>
  An \<^verbatim>\<open>io.Reader\<close> is the list of the bytes it still delivers before end of file.
  \<^verbatim>\<open>io.ReadFull(r, buf)\<close> with \<open>n = len(buf)\<close> returns the next \<open>n\<close> bytes, or consumes what
  is left and fails: with \<^verbatim>\<open>io.EOF\<close> when nothing was left, with
  \<^verbatim>\<open>io.ErrUnexpectedEOF\<close> otherwise. A read of zero bytes succeeds on any stream. The
  result is paired with the rest of the stream.
\<close>

definition ReadFull :: "byte list \<Rightarrow> nat \<Rightarrow> (error + byte list) \<times> byte list" where
  "ReadFull r n =
     (if n \<le> length r then (Inr (take n r), drop n r)
      else (Inl (if r = [] then EOF else ErrUnexpectedEOF), []))"

subsection \<open>\<^verbatim>\<open>readAddrSpec\<close> and \<^verbatim>\<open>NewRequest\<close>\<close>

text \<open>The port of \<^verbatim>\<open>readAddrSpec\<close>: \<^verbatim>\<open>(int(port[0]) << 8) | int(port[1])\<close>.\<close>

definition read_port :: "byte list \<Rightarrow> int" where
  "read_port port = (push_bit 8 (uint (port ! 0))) OR uint (port ! 1)"

definition readAddrSpec :: "byte list \<Rightarrow> (error + AddrSpec) \<times> byte list" where
  "readAddrSpec r =
     (case ReadFull r 1 of
        (Inl err, r1) \<Rightarrow> (Inl err, r1)
      | (Inr addrType, r1) \<Rightarrow>
          (let after_addr =
             (if addrType ! 0 = ipv4Address then
                (case ReadFull r1 4 of
                   (Inl err, r2) \<Rightarrow> (Inl err, r2)
                 | (Inr addr, r2) \<Rightarrow> (Inr (AddrSpec_zero\<lparr>IP := addr\<rparr>), r2))
              else if addrType ! 0 = ipv6Address then
                (case ReadFull r1 16 of
                   (Inl err, r2) \<Rightarrow> (Inl err, r2)
                 | (Inr addr, r2) \<Rightarrow> (Inr (AddrSpec_zero\<lparr>IP := addr\<rparr>), r2))
              else if addrType ! 0 = fqdnAddress then
                (case ReadFull r1 1 of
                   (Inl err, r2) \<Rightarrow> (Inl err, r2)
                 | (Inr addrLen, r2) \<Rightarrow>
                     (case ReadFull r2 (unat (addrLen ! 0)) of
                        (Inl err, r3) \<Rightarrow> (Inl err, r3)
                      | (Inr fqdn, r3) \<Rightarrow>
                          (Inr (AddrSpec_zero\<lparr>FQDN := string_of_bytes fqdn\<rparr>), r3)))
              else (Inl unrecognizedAddrType, r1))
           in case after_addr of
                (Inl err, r2) \<Rightarrow> (Inl err, r2)
              | (Inr d, r2) \<Rightarrow>
                  (case ReadFull r2 2 of
                     (Inl err, r3) \<Rightarrow> (Inl err, r3)
                   | (Inr port, r3) \<Rightarrow> (Inr (d\<lparr>Port := read_port port\<rparr>), r3))))"

definition NewRequest :: "byte list \<Rightarrow> (error + Request) \<times> byte list" where
  "NewRequest conn =
     (case ReadFull conn 3 of
        (Inl err, r1) \<Rightarrow> (Inl (Errorf ''failed to get command version: %w'' (Some err)), r1)
      | (Inr header, r1) \<Rightarrow>
          if header ! 0 \<noteq> socks5Version
          then (Inl (Errorf ''unsupported command version: %v'' None), r1)
          else
            (case readAddrSpec r1 of
               (Inl err, r2) \<Rightarrow> (Inl err, r2)
             | (Inr dest, r2) \<Rightarrow>
                 (Inr \<lparr>Version = socks5Version, Command = header ! 1, AuthContext = None,
                       RemoteAddr = None, DestAddr = Some dest\<rparr>, r2)))"

subsection \<open>\<^verbatim>\<open>sendReply\<close>\<close>

text \<open>
  The address part of \<^verbatim>\<open>sendReply\<close>: the type byte, the body and the 16-bit port, or
  \<open>None\<close> for the \<^verbatim>\<open>default\<close> branch ("failed to format address"). The argument is
  \<open>None\<close> for a \<^verbatim>\<open>nil\<close> address.
\<close>

definition format_address :: "AddrSpec option \<Rightarrow> (byte \<times> byte list \<times> 16 word) option" where
  "format_address addr =
     (case addr of
        None \<Rightarrow> Some (ipv4Address, [0, 0, 0, 0], 0)
      | Some a \<Rightarrow>
          if FQDN a \<noteq> [] then
            Some (fqdnAddress,
                  [word_of_nat (length (FQDN a))] @ bytes_of_string (FQDN a),
                  word_of_int (Port a))
          else if To4 (IP a) \<noteq> None then
            Some (ipv4Address, the (To4 (IP a)), word_of_int (Port a))
          else if To16 (IP a) \<noteq> None then
            Some (ipv6Address, the (To16 (IP a)), word_of_int (Port a))
          else None)"

text \<open>
  The message of \<^verbatim>\<open>sendReply\<close>: version, reply code, reserved byte, address type,
  address body, then \<^verbatim>\<open>byte(addrPort >> 8)\<close> and \<^verbatim>\<open>byte(addrPort & 0xff)\<close>.
\<close>

definition reply_message :: "byte \<Rightarrow> byte \<times> byte list \<times> 16 word \<Rightarrow> byte list" where
  "reply_message resp f =
     (case f of (addrType, addrBody, addrPort) \<Rightarrow>
        [socks5Version, resp, 0, addrType] @ addrBody @
        [ucast (drop_bit 8 addrPort), ucast (addrPort AND 0xff)])"

text \<open>
  \<^verbatim>\<open>sendReply(w, resp, addr)\<close>: \<open>write\<close> is the writer's \<^verbatim>\<open>Write\<close>, which returns its
  error, if any. The result is the error returned and the list of the messages handed to
  \<^verbatim>\<open>Write\<close> (none, or one).
\<close>

definition sendReply ::
  "(byte list \<Rightarrow> error option) \<Rightarrow> byte \<Rightarrow> AddrSpec option \<Rightarrow> error option \<times> byte list list" where
  "sendReply write resp addr =
     (case format_address addr of
        None \<Rightarrow> (Some (Errorf ''failed to format address: %v'' None), [])
      | Some f \<Rightarrow> (write (reply_message resp f), [reply_message resp f]))"

subsection \<open>The collaborators of the handlers\<close>

text \<open>
  \<^verbatim>\<open>strings.HasPrefix\<close> and \<^verbatim>\<open>strings.Contains\<close>.
\<close>

fun HasPrefix :: "string \<Rightarrow> string \<Rightarrow> bool" where
  "HasPrefix s [] = True"
| "HasPrefix [] (p # ps) = False"
| "HasPrefix (c # cs) (p # ps) = (c = p \<and> HasPrefix cs ps)"

fun Contains :: "string \<Rightarrow> string \<Rightarrow> bool" where
  "Contains [] substr = (substr = [])"
| "Contains (c # cs) substr = (HasPrefix (c # cs) substr \<or> Contains cs substr)"

text \<open>
  The string \<^verbatim>\<open>a.Address()\<close> hands to the dialer is \<^verbatim>\<open>net.JoinHostPort\<close> of a host and
  the port; the host is the IP when \<^verbatim>\<open>len(a.IP)\<close> is not zero and the FQDN otherwise.
  The text formatting of the standard library is not modelled: the two parts are kept.
\<close>

datatype dial_address = JoinHostPort_IP "byte list" int | JoinHostPort_FQDN string int

definition Address :: "AddrSpec \<Rightarrow> dial_address" where
  "Address a =
     (if 0 \<noteq> length (IP a) then JoinHostPort_IP (IP a) (Port a)
      else JoinHostPort_FQDN (FQDN a) (Port a))"

text \<open>A \<^verbatim>\<open>net.UDPAddr\<close> or \<^verbatim>\<open>net.TCPAddr\<close>: IP and port.\<close>

type_synonym netaddr = "byte list \<times> int"

text \<open>
  The outcome of the set-up of the UDP listener in \<^verbatim>\<open>handleAssociate\<close>: one of its four
  calls fails, or the listener is bound to a port.
\<close>

datatype udp_setup =
    ResolveUDPAddr_fails error
  | ListenUDP_fails error
  | SplitHostPort_fails error
  | Atoi_fails error
  | Listening int

text \<open>
  The environment of a handler, one field per collaborator:
  the configuration flag; the resolver (\<open>Inl\<close> its error, \<open>Inr\<close> the address);
  the dialer (\<open>Inl\<close> the text of the dial error, \<open>Inr\<close> the local address of the new
  connection); the client connection's \<^verbatim>\<open>Write\<close> (its error, if any); the error
  \<^verbatim>\<open>BidiCopy\<close> returns; the set-up of the UDP listener; the error the two UDP pumps leave
  behind; \<^verbatim>\<open>net.ResolveUDPAddr\<close> on the string \<^verbatim>\<open>host:port\<close>, given as host and port;
  \<^verbatim>\<open>WriteToUDP\<close> (\<open>Inl\<close> its error, \<open>Inr\<close> the number of bytes written).
  The last field gives the concrete (dynamic) type of every error value, by its Go name:
  the types of the \<^verbatim>\<open>stderror\<close> values and of the collaborators' errors are declared
  outside this file, and \<^verbatim>\<open>atomic.Value\<close> compares them.
\<close>

record env =
  AllowLocalDestination :: bool
  Resolve :: "string \<Rightarrow> error + byte list"
  DialContext :: "dial_address \<Rightarrow> string + netaddr"
  conn_Write :: "byte list \<Rightarrow> error option"
  BidiCopy :: "error option"
  listen_udp :: udp_setup
  udp_pumps :: error
  ResolveUDPAddr :: "string \<Rightarrow> int \<Rightarrow> error + netaddr"
  WriteToUDP :: "byte list \<Rightarrow> netaddr \<Rightarrow> error + nat"
  concrete_type :: "error \<Rightarrow> string"

text \<open>The process-wide counters of package \<^verbatim>\<open>metrics\<close> that this file increments.\<close>

record metrics =
  Socks5DNSResolveErrors :: nat
  Socks5UnsupportedCommandErrors :: nat
  Socks5ConnectionRefusedErrors :: nat
  Socks5NetworkUnreachableErrors :: nat
  Socks5HostUnreachableErrors :: nat
  Socks5HandshakeErrors :: nat
  Socks5UDPAssociateErrors :: nat
  UDPAssociateOutPkts :: nat
  UDPAssociateOutBytes :: nat

text \<open>
  What a handler does to the outside, in order: a \<^verbatim>\<open>Write\<close> on the client connection,
  a TCP dial, the bidirectional TCP relay, the close of the dialed connection, the bind
  of the UDP listener, the UDP relay of the two pumps.
\<close>

datatype event =
    Write "byte list"
  | Dial dial_address
  | Relay
  | TargetClose
  | ListenUDP
  | UDPRelay

text \<open>A handler returns its \<^verbatim>\<open>error\<close> (\<open>None\<close> for \<^verbatim>\<open>nil\<close>) or panics.\<close>

datatype result = Return "error option" | Panicked

type_synonym handled = "result \<times> event list \<times> metrics"

subsection \<open>The command handlers\<close>

text \<open>
  \<^verbatim>\<open>sendReply\<close> on the client connection of the environment, its \<^verbatim>\<open>Write\<close> calls as
  events.
\<close>

definition reply :: "env \<Rightarrow> byte \<Rightarrow> AddrSpec option \<Rightarrow> error option \<times> event list" where
  "reply e resp addr =
     (case sendReply (conn_Write e) resp addr of (err, msgs) \<Rightarrow> (err, map Write msgs))"

definition isLocalhostDest :: "Request option \<Rightarrow> bool" where
  "isLocalhostDest req =
     (case req of
        None \<Rightarrow> False
      | Some r \<Rightarrow>
          (case DestAddr r of
             None \<Rightarrow> False
           | Some d \<Rightarrow>
               if FQDN d = ''localhost'' \<or> IsLoopback (IP d) then True else False))"

text \<open>
  \<^verbatim>\<open>handleConnect\<close>. A request without destination panics at \<^verbatim>\<open>req.DestAddr.Address()\<close>.
  The deferred \<^verbatim>\<open>target.Close()\<close> runs when the handler returns after a successful dial.
\<close>

definition handleConnect :: "env \<Rightarrow> metrics \<Rightarrow> Request \<Rightarrow> handled" where
  "handleConnect e m req =
     (case DestAddr req of
        None \<Rightarrow> (Panicked, [], m)
      | Some dest \<Rightarrow>
          (case DialContext e (Address dest) of
             Inl msg \<Rightarrow>
               (let (resp, m1) =
                      (if Contains msg ''refused'' then
                         (connectionRefused,
                          m\<lparr>Socks5ConnectionRefusedErrors := Socks5ConnectionRefusedErrors m + 1\<rparr>)
                       else if Contains msg ''network is unreachable'' then
                         (networkUnreachable,
                          m\<lparr>Socks5NetworkUnreachableErrors := Socks5NetworkUnreachableErrors m + 1\<rparr>)
                       else
                         (hostUnreachable,
                          m\<lparr>Socks5HostUnreachableErrors := Socks5HostUnreachableErrors m + 1\<rparr>))
                in case reply e resp None of
                     (Some err, evs) \<Rightarrow>
                       (Return (Some (Errorf ''failed to send reply: %w'' (Some err))),
                        Dial (Address dest) # evs, m1)
                   | (None, evs) \<Rightarrow>
                       (Return (Some (Errorf ''connect to %v failed: %w'' (Some (External msg)))),
                        Dial (Address dest) # evs, m1))
           | Inr local \<Rightarrow>
               (case reply e successReply (Some \<lparr>FQDN = [], IP = fst local, Port = snd local\<rparr>) of
                  (Some err, evs) \<Rightarrow>
                    (Return (Some (Errorf ''failed to send reply: %w'' (Some err))),
                     Dial (Address dest) # evs @ [TargetClose],
                     m\<lparr>Socks5HandshakeErrors := Socks5HandshakeErrors m + 1\<rparr>)
                | (None, evs) \<Rightarrow>
                    (Return (BidiCopy e),
                     Dial (Address dest) # evs @ [Relay, TargetClose], m))))"

definition handleBind :: "env \<Rightarrow> metrics \<Rightarrow> Request \<Rightarrow> handled" where
  "handleBind e m req =
     (let m1 = m\<lparr>Socks5UnsupportedCommandErrors := Socks5UnsupportedCommandErrors m + 1\<rparr>
      in case reply e commandNotSupported None of
           (Some err, evs) \<Rightarrow>
             (Return (Some (Errorf ''failed to send reply: %w'' (Some err))), evs,
              m1\<lparr>Socks5HandshakeErrors := Socks5HandshakeErrors m1 + 1\<rparr>)
         | (None, evs) \<Rightarrow> (Return None, evs, m1))"

text \<open>
  \<^verbatim>\<open>handleAssociate\<close> up to the start of the two pumps. The pumps run concurrently; here
  they are one event, and the handler returns the error they leave in the error box
  (\<open>udp_pumps\<close>). The outbound pump and the error box are modelled on their own below.
\<close>

definition count_associate_error :: "metrics \<Rightarrow> metrics" where
  "count_associate_error m = m\<lparr>Socks5UDPAssociateErrors := Socks5UDPAssociateErrors m + 1\<rparr>"

definition handleAssociate :: "env \<Rightarrow> metrics \<Rightarrow> Request \<Rightarrow> handled" where
  "handleAssociate e m req =
     (case listen_udp e of
        ResolveUDPAddr_fails err \<Rightarrow>
          (Return (Some (Errorf ''failed to resolve UDP address: %w'' (Some err))), [],
           count_associate_error m)
      | ListenUDP_fails err \<Rightarrow>
          (Return (Some (Errorf ''failed to listen UDP: %w'' (Some err))), [],
           count_associate_error m)
      | SplitHostPort_fails err \<Rightarrow>
          (Return (Some (Errorf ''net.SplitHostPort() failed: %w'' (Some err))), [ListenUDP],
           count_associate_error m)
      | Atoi_fails err \<Rightarrow>
          (Return (Some (Errorf ''strconv.Atoi() failed: %w'' (Some err))), [ListenUDP],
           count_associate_error m)
      | Listening udpPort \<Rightarrow>
          (case reply e successReply (Some \<lparr>FQDN = [], IP = [0, 0, 0, 0], Port = udpPort\<rparr>) of
             (Some err, evs) \<Rightarrow>
               (Return (Some (Errorf ''failed to send reply: %w'' (Some err))), ListenUDP # evs,
                m\<lparr>Socks5HandshakeErrors := Socks5HandshakeErrors m + 1\<rparr>)
           | (None, evs) \<Rightarrow>
               (Return (Some (udp_pumps e)), ListenUDP # evs @ [UDPRelay], m)))"

text \<open>
  \<^verbatim>\<open>handleRequest\<close>. \<^verbatim>\<open>dest\<close> is the pointer \<^verbatim>\<open>req.DestAddr\<close>, so the resolved IP written
  to \<^verbatim>\<open>dest.IP\<close> is the one \<^verbatim>\<open>isLocalhostDest(req)\<close> and the handlers see. A request without
  destination panics at \<^verbatim>\<open>dest.FQDN\<close>.
\<close>

definition handleRequest :: "env \<Rightarrow> metrics \<Rightarrow> Request \<Rightarrow> handled" where
  "handleRequest e m req =
     (case DestAddr req of
        None \<Rightarrow> (Panicked, [], m)
      | Some dest \<Rightarrow>
          (case (if FQDN dest \<noteq> [] then
                   (case Resolve e (FQDN dest) of
                      Inl err \<Rightarrow> Inl err
                    | Inr addr \<Rightarrow> Inr (dest\<lparr>IP := addr\<rparr>))
                 else Inr dest) of
             Inl err \<Rightarrow>
               (let m1 = m\<lparr>Socks5DNSResolveErrors := Socks5DNSResolveErrors m + 1\<rparr>
                in case reply e hostUnreachable None of
                     (Some err', evs) \<Rightarrow>
                       (Return (Some (Errorf ''failed to send reply: %w'' (Some err'))), evs, m1)
                   | (None, evs) \<Rightarrow>
                       (Return (Some (Errorf ''failed to resolve destination %q: %w'' (Some err))),
                        evs, m1))
           | Inr dest' \<Rightarrow>
               (let req' = req\<lparr>DestAddr := Some dest'\<rparr>
                in if \<not> AllowLocalDestination e \<and> isLocalhostDest (Some req') then
                     (Return (Some (Errorf ''access to localhost resource via proxy is not allowed''
                                      None)), [], m)
                   else if Command req' = ConnectCommand then handleConnect e m req'
                   else if Command req' = BindCommand then handleBind e m req'
                   else if Command req' = AssociateCommand then handleAssociate e m req'
                   else
                     (let m1 = m\<lparr>Socks5UnsupportedCommandErrors :=
                                   Socks5UnsupportedCommandErrors m + 1\<rparr>
                      in case reply e commandNotSupported None of
                           (Some err, evs) \<Rightarrow>
                             (Return (Some (Errorf ''failed to send reply: %w'' (Some err))), evs, m1)
                         | (None, evs) \<Rightarrow>
                             (Return (Some (Errorf ''unsupported command: %v'' None)), evs, m1)))))"

subsection \<open>The outbound pump of \<^verbatim>\<open>handleAssociate\<close>\<close>

text \<open>
  \<^verbatim>\<open>Store(v)\<close> of an \<^verbatim>\<open>atomic.Value\<close> that holds \<open>box\<close>: it panics (\<open>None\<close>) when the box
  holds a value whose concrete type is not the concrete type of \<open>v\<close>; otherwise the box
  holds \<open>v\<close> afterwards. \<open>ty\<close> gives the concrete type of an error value.
\<close>

definition Value_Store ::
  "(error \<Rightarrow> string) \<Rightarrow> error option \<Rightarrow> error \<Rightarrow> error option option" where
  "Value_Store ty box v =
     (case box of
        None \<Rightarrow> Some (Some v)
      | Some old \<Rightarrow> if ty old = ty v then Some (Some v) else None)"

text \<open>
  The slice expression \<^verbatim>\<open>b[lo:hi]\<close> on a slice whose capacity is its length: it panics
  (\<open>None\<close>) unless \<open>lo \<le> hi \<le> cap(b)\<close>.
\<close>

definition go_slice :: "'a list \<Rightarrow> nat \<Rightarrow> nat \<Rightarrow> 'a list option" where
  "go_slice b lo hi =
     (if lo \<le> hi \<and> hi \<le> length b then Some (take (hi - lo) (drop lo b)) else None)"

text \<open>The destination port of a datagram: \<^verbatim>\<open>int(hi)<<8 + int(lo)\<close>.\<close>

definition udp_port :: "byte \<Rightarrow> byte \<Rightarrow> int" where
  "udp_port hi lo = push_bit 8 (uint hi) + uint lo"

text \<open>
  The state of the outbound pump: its read buffer, the shared error box \<^verbatim>\<open>udpErr\<close>, the
  counters, the \<^verbatim>\<open>WriteToUDP\<close> calls made so far (payload and destination, in order) and
  whether the UDP listener has been closed.
\<close>

record pump =
  buf :: "byte list"
  udpErr :: "error option"
  counters :: metrics
  udp_writes :: "(byte list \<times> netaddr) list"
  udpConn_closed :: bool

text \<open>\<^verbatim>\<open>buf := make([]byte, 1<<16)\<close>, an empty error box.\<close>

definition pump_init :: "metrics \<Rightarrow> pump" where
  "pump_init m =
     \<lparr>buf = replicate (2 ^ 16) 0, udpErr = None, counters = m, udp_writes = [],
      udpConn_closed = False\<rparr>"

text \<open>
  How an iteration of the pump's loop ends: with the next iteration, with \<^verbatim>\<open>return\<close>, or
  with a run-time panic.
\<close>

datatype control = Loop | Returns | Panics

text \<open>
  \<^verbatim>\<open>udpErr.Store(err)\<close>, the error counter, \<^verbatim>\<open>return\<close>. When the store panics, the counter
  is not reached.
\<close>

definition reject :: "env \<Rightarrow> pump \<Rightarrow> error \<Rightarrow> control \<times> pump" where
  "reject e s err =
     (case Value_Store (concrete_type e) (udpErr s) err of
        None \<Rightarrow> (Panics, s)
      | Some box \<Rightarrow>
          (Returns, s\<lparr>udpErr := box, counters := count_associate_error (counters s)\<rparr>))"

text \<open>\<^verbatim>\<open>udpConn.WriteToUDP(payload, dstAddr)\<close> and the counters after it.\<close>

definition write_udp :: "env \<Rightarrow> pump \<Rightarrow> byte list \<Rightarrow> netaddr \<Rightarrow> control \<times> pump" where
  "write_udp e s payload dstAddr =
     (let s1 = s\<lparr>udp_writes := udp_writes s @ [(payload, dstAddr)]\<rparr>
      in case WriteToUDP e payload dstAddr of
           Inl err \<Rightarrow> (Loop, s1\<lparr>counters := count_associate_error (counters s1)\<rparr>)
         | Inr ws \<Rightarrow>
             (Loop, s1\<lparr>counters := (counters s1)
                \<lparr>UDPAssociateOutPkts := UDPAssociateOutPkts (counters s1) + 1,
                 UDPAssociateOutBytes := UDPAssociateOutBytes (counters s1) + ws\<rparr>\<rparr>))"

text \<open>
  The body of the loop after \<^verbatim>\<open>conn.Read(buf)\<close> has returned \<open>n\<close> and no error; \<open>buf s\<close>
  is the buffer after the read. The buffer has \<open>1<<16\<close> bytes, so the reads at constant
  indices are in range. \<^verbatim>\<open>fqdnLen\<close> is a \<^verbatim>\<open>byte\<close>: \<^verbatim>\<open>5+fqdnLen\<close>, \<^verbatim>\<open>6+fqdnLen\<close> and
  \<^verbatim>\<open>7+fqdnLen\<close> are computed in \<^verbatim>\<open>uint8\<close> and wrap around, while \<^verbatim>\<open>int(buf[4])+6\<close> of the
  length check does not.
\<close>

definition outbound_datagram :: "env \<Rightarrow> pump \<Rightarrow> nat \<Rightarrow> control \<times> pump" where
  "outbound_datagram e s n =
     (let b = buf s in
      if n \<le> 6 then reject e s ErrNoEnoughData
      else if b ! 0 \<noteq> 0x00 \<or> b ! 1 \<noteq> 0x00 then reject e s ErrInvalidArgument
      else if b ! 2 \<noteq> 0x00 then reject e s ErrUnsupported
      else
        (let addrType = b ! 3 in
         if addrType \<noteq> 0x01 \<and> addrType \<noteq> 0x03 \<and> addrType \<noteq> 0x04
           then reject e s ErrInvalidArgument
         else if (addrType = 0x01 \<and> n \<le> 10) \<or> (addrType = 0x03 \<and> n \<le> unat (b ! 4) + 6)
                 \<or> (addrType = 0x04 \<and> n \<le> 22)
           then reject e s ErrNoEnoughData
         else if addrType = 0x01 then
           (case go_slice b 4 8 of
              None \<Rightarrow> (Panics, s)
            | Some ip \<Rightarrow>
                (case go_slice b 10 (n + 1) of
                   None \<Rightarrow> (Panics, s)
                 | Some payload \<Rightarrow> write_udp e s payload (ip, udp_port (b ! 8) (b ! 9))))
         else if addrType = 0x03 then
           (let fqdnLen = b ! 4 in
            case go_slice b 5 (unat (5 + fqdnLen)) of
              None \<Rightarrow> (Panics, s)
            | Some fqdn \<Rightarrow>
                (case ResolveUDPAddr e (string_of_bytes fqdn)
                        (udp_port (b ! unat (5 + fqdnLen)) (b ! unat (6 + fqdnLen))) of
                   Inl err \<Rightarrow> (Loop, s\<lparr>counters := count_associate_error (counters s)\<rparr>)
                 | Inr dstAddr \<Rightarrow>
                     (case go_slice b (unat (7 + fqdnLen)) (n + 1) of
                        None \<Rightarrow> (Panics, s)
                      | Some payload \<Rightarrow> write_udp e s payload dstAddr)))
         else
           (case go_slice b 4 20 of
              None \<Rightarrow> (Panics, s)
            | Some ip \<Rightarrow>
                (case go_slice b 22 (n + 1) of
                   None \<Rightarrow> (Panics, s)
                 | Some payload \<Rightarrow> write_udp e s payload (ip, udp_port (b ! 20) (b ! 21))))))"

text \<open>
  \<^verbatim>\<open>conn.Read(buf)\<close> of a datagram \<open>d\<close> from the tunnel: it fills the first \<open>len(d)\<close> bytes
  of the buffer, leaves the others as they were, and returns \<open>len(d)\<close>. A read returns
  at most \<open>len(buf)\<close> bytes.
\<close>

definition tunnel_Read :: "byte list \<Rightarrow> byte list \<Rightarrow> nat \<times> byte list" where
  "tunnel_Read b d = (length d, d @ drop (length d) b)"

text \<open>One iteration of the loop on a datagram read without error.\<close>

definition outbound_step :: "env \<Rightarrow> pump \<Rightarrow> byte list \<Rightarrow> control \<times> pump" where
  "outbound_step e s d =
     (case tunnel_Read (buf s) d of (n, b) \<Rightarrow> outbound_datagram e (s\<lparr>buf := b\<rparr>) n)"

text \<open>
  The pump: its loop over the results of the reads of the tunnel, each an error or a
  datagram. With no result left the pump is blocked in \<^verbatim>\<open>Read\<close> (\<open>Loop\<close>). On a read
  error the pump stores the error and returns, unless the store panics. The deferred
  \<^verbatim>\<open>udpConn.Close()\<close> runs when the pump returns.
\<close>

fun outbound_pump :: "env \<Rightarrow> pump \<Rightarrow> (error + byte list) list \<Rightarrow> control \<times> pump" where
  "outbound_pump e s [] = (Loop, s)"
| "outbound_pump e s (Inl err # reads) =
     (case Value_Store (concrete_type e) (udpErr s) err of
        None \<Rightarrow> (Panics, s)
      | Some box \<Rightarrow> (Returns, s\<lparr>udpErr := box, udpConn_closed := True\<rparr>))"
| "outbound_pump e s (Inr d # reads) =
     (case outbound_step e s d of
        (Loop, s') \<Rightarrow> outbound_pump e s' reads
      | (Returns, s') \<Rightarrow> (Returns, s'\<lparr>udpConn_closed := True\<rparr>)
      | (Panics, s') \<Rightarrow> (Panics, s'))"

subsection \<open>The error box shared by the two pumps\<close>

text \<open>
  \<^verbatim>\<open>udpErr\<close> is an \<^verbatim>\<open>atomic.Value\<close>: its \<^verbatim>\<open>Load\<close> and \<^verbatim>\<open>Store\<close> are atomic, so a run of the
  two pumps is an interleaving of these operations. The outbound pump, on each of its
  six ways to return, does one \<^verbatim>\<open>udpErr.Store(err)\<close>. The inbound pump, on both of its
  ways to return, does \<^verbatim>\<open>udpErr.Load()\<close> and then, when it loaded \<^verbatim>\<open>nil\<close>,
  \<^verbatim>\<open>udpErr.Store(err)\<close>. A schedule names the pump whose next operation on the box runs.
  A \<^verbatim>\<open>Store\<close> that panics crashes the process: no later operation runs and
  \<^verbatim>\<open>handleAssociate\<close> does not return.
\<close>

datatype pump_id = OutboundPump | InboundPump

datatype inbound_pc = BeforeLoad | LoadedNil | InboundDone

record error_box =
  slot :: "error option"
  stores :: "error list"
  outbound_done :: bool
  inbound_at :: inbound_pc
  crashed :: bool

definition box_init :: error_box where
  "box_init =
     \<lparr>slot = None, stores = [], outbound_done = False, inbound_at = BeforeLoad,
      crashed = False\<rparr>"

text \<open>
  One operation on the box; \<open>ty\<close> gives the concrete type of an error value, \<open>e_out\<close>
  and \<open>e_in\<close> are the errors the outbound and the inbound pump end with. \<open>stores\<close> logs
  the errors stored, in order.
\<close>

fun box_step ::
  "(error \<Rightarrow> string) \<Rightarrow> error \<Rightarrow> error \<Rightarrow> error_box \<Rightarrow> pump_id \<Rightarrow> error_box" where
  "box_step ty e_out e_in s OutboundPump =
     (if crashed s \<or> outbound_done s then s
      else
        (case Value_Store ty (slot s) e_out of
           None \<Rightarrow> s\<lparr>crashed := True\<rparr>
         | Some box \<Rightarrow> s\<lparr>slot := box, stores := stores s @ [e_out], outbound_done := True\<rparr>))"
| "box_step ty e_out e_in s InboundPump =
     (if crashed s then s
      else
        (case inbound_at s of
           BeforeLoad \<Rightarrow>
             (if slot s = None then s\<lparr>inbound_at := LoadedNil\<rparr>
              else s\<lparr>inbound_at := InboundDone\<rparr>)
         | LoadedNil \<Rightarrow>
             (case Value_Store ty (slot s) e_in of
                None \<Rightarrow> s\<lparr>crashed := True\<rparr>
              | Some box \<Rightarrow>
                  s\<lparr>slot := box, stores := stores s @ [e_in], inbound_at := InboundDone\<rparr>)
         | InboundDone \<Rightarrow> s))"

definition box_run :: "(error \<Rightarrow> string) \<Rightarrow> error \<Rightarrow> error \<Rightarrow> pump_id list \<Rightarrow> error_box" where
  "box_run ty e_out e_in schedule = foldl (box_step ty e_out e_in) box_init schedule"

text \<open>
  \<^verbatim>\<open>wg.Wait(); return udpErr.Load().(error)\<close>: the process has crashed in a \<^verbatim>\<open>Store\<close>
  (\<open>Panicked\<close>), or a pump is still running (\<open>None\<close>), or both pumps are done; then the
  type assertion panics on an empty box.
\<close>

definition wait_and_load :: "error_box \<Rightarrow> result option" where
  "wait_and_load s =
     (if crashed s then Some Panicked
      else if outbound_done s \<and> inbound_at s = InboundDone then
        (case slot s of None \<Rightarrow> Some Panicked | Some err \<Rightarrow> Some (Return (Some err)))
      else None)"

subsection \<open>Notions used to state the properties\<close>

text \<open>
  Of a reply message: its last two bytes (the port field) and what follows the three
  bytes version, reply code and reserved (the address: type, body, port).
\<close>

definition port_bytes :: "byte list \<Rightarrow> byte list" where
  "port_bytes msg = drop (length msg - 2) msg"

definition address_part :: "byte list \<Rightarrow> byte list" where
  "address_part msg = drop 3 msg"

text \<open>
  The three kinds of AddrSpec of the round-trip property: a 4-byte IPv4 address, a
  16-byte IPv6 address, an FQDN of at most 255 bytes, each with a port in 0..65535.
\<close>

definition is_ipv4_spec :: "AddrSpec \<Rightarrow> bool" where
  "is_ipv4_spec a = (FQDN a = [] \<and> length (IP a) = 4 \<and> 0 \<le> Port a \<and> Port a \<le> 65535)"

definition is_ipv6_spec :: "AddrSpec \<Rightarrow> bool" where
  "is_ipv6_spec a = (FQDN a = [] \<and> length (IP a) = 16 \<and> 0 \<le> Port a \<and> Port a \<le> 65535)"

definition is_fqdn_spec :: "AddrSpec \<Rightarrow> bool" where
  "is_fqdn_spec a = (IP a = [] \<and> length (FQDN a) \<le> 255 \<and> 0 \<le> Port a \<and> Port a \<le> 65535)"

text \<open>A writer whose \<^verbatim>\<open>Write\<close> succeeds.\<close>

definition no_write_error :: "byte list \<Rightarrow> error option" where
  "no_write_error msg = None"

text \<open>All counters at zero.\<close>

definition metrics_zero :: metrics where
  "metrics_zero =
     \<lparr>Socks5DNSResolveErrors = 0, Socks5UnsupportedCommandErrors = 0,
      Socks5ConnectionRefusedErrors = 0, Socks5NetworkUnreachableErrors = 0,
      Socks5HostUnreachableErrors = 0, Socks5HandshakeErrors = 0,
      Socks5UDPAssociateErrors = 0, UDPAssociateOutPkts = 0, UDPAssociateOutBytes = 0\<rparr>"

text \<open>
  Concrete types for the concrete runs: an error of a collaborator is a
  \<^verbatim>\<open>*net.OpError\<close>, an error that wraps another a \<^verbatim>\<open>*fmt.wrapError\<close>, every other one an
  \<^verbatim>\<open>*errors.errorString\<close>.
\<close>

definition sample_types :: "error \<Rightarrow> string" where
  "sample_types err =
     (case err of
        External msg \<Rightarrow> ''*net.OpError''
      | Errorf fmt (Some cause) \<Rightarrow> ''*fmt.wrapError''
      | _ \<Rightarrow> ''*errors.errorString'')"

text \<open>
  An environment for the concrete runs: local destinations are not allowed, the resolver
  and the dialer fail, every write succeeds.
\<close>

definition sample_env :: env where
  "sample_env =
     \<lparr>AllowLocalDestination = False,
      Resolve = (\<lambda>name. Inl (External ''no such host'')),
      DialContext = (\<lambda>a. Inl ''dial tcp: connect: connection refused''),
      conn_Write = no_write_error,
      BidiCopy = None,
      listen_udp = Listening 40000,
      udp_pumps = EOF,
      ResolveUDPAddr = (\<lambda>host port. Inl (External ''no such host'')),
      WriteToUDP = (\<lambda>payload a. Inr (length payload)),
      concrete_type = sample_types\<rparr>"

text \<open>
  The reply \<^verbatim>\<open>sendReply(conn, resp, nil)\<close> writes: version 5, the code, the reserved
  byte, type IPv4, address 0.0.0.0, port 0.
\<close>

definition error_reply :: "byte \<Rightarrow> byte list" where
  "error_reply resp = [5, resp, 0, 1, 0, 0, 0, 0, 0, 0]"

text \<open>
  A datagram is rejected by an iteration that starts in state \<open>s\<close> and ends in \<open>r\<close>:
  the pump returns, an error is stored in the error box, the error counter is one
  higher, and no \<^verbatim>\<open>WriteToUDP\<close> call was made. The errors the pump rejects with are the
  three \<^verbatim>\<open>stderror\<close> values.
\<close>

definition rejected_with :: "error \<Rightarrow> pump \<Rightarrow> control \<times> pump \<Rightarrow> bool" where
  "rejected_with err s r =
     (fst r = Returns \<and> udpErr (snd r) = Some err \<and>
      Socks5UDPAssociateErrors (counters (snd r)) = Socks5UDPAssociateErrors (counters s) + 1 \<and>
      udp_writes (snd r) = udp_writes s)"

definition rejected :: "pump \<Rightarrow> control \<times> pump \<Rightarrow> bool" where
  "rejected s r =
     (rejected_with ErrNoEnoughData s r \<or> rejected_with ErrInvalidArgument s r \<or>
      rejected_with ErrUnsupported s r)"

text \<open>
  The length condition of the UDP header guard, on the buffer \<open>b\<close> after a read of \<open>n\<close>
  bytes: ATYP is \<open>b ! 3\<close>, the declared FQDN length is \<open>b ! 4\<close>. \<open>header_ok\<close>: the
  checks that come before it in the pump pass.
\<close>

definition too_short :: "byte list \<Rightarrow> nat \<Rightarrow> bool" where
  "too_short b n =
     ((b ! 3 = 1 \<and> n \<le> 10) \<or> (b ! 3 = 4 \<and> n \<le> 22) \<or> (b ! 3 = 3 \<and> n \<le> 6 + unat (b ! 4)))"

definition header_ok :: "byte list \<Rightarrow> nat \<Rightarrow> bool" where
  "header_ok b n =
     (6 < n \<and> b ! 0 = 0 \<and> b ! 1 = 0 \<and> b ! 2 = 0 \<and> (b ! 3 = 1 \<or> b ! 3 = 3 \<or> b ! 3 = 4))"

text \<open>An iteration or a run of the pump that returns leaves an error in the box.\<close>

definition stores_on_return :: "control \<times> pump \<Rightarrow> bool" where
  "stores_on_return r = (fst r = Returns \<longrightarrow> udpErr (snd r) \<noteq> None)"

text \<open>The box holds the error stored last.\<close>

definition box_inv :: "error_box \<Rightarrow> bool" where
  "box_inv s = (slot s = (if stores s = [] then None else Some (last (stores s))))"

section \<open>Properties\<close>

subsection \<open>The address codec\<close>

lemma mask8: "(0xff :: 16 word) = mask 8"
  by (simp add: mask_eq_exp_minus_1)

lemma port_bytes_value:
  "read_port [ucast (drop_bit 8 (w :: 16 word)), ucast (w AND 0xff)] = uint w"
proof -
  have "push_bit 8 (uint (ucast (drop_bit 8 w) :: byte)) OR uint (ucast (take_bit 8 w) :: byte)
          = uint w"
    by (rule bit_eqI) (auto simp add: bit_simps dest: bit_imp_le_length)
  then show ?thesis
    by (simp add: read_port_def mask8 flip: take_bit_eq_mask)
qed

lemma char_byte_roundtrip: "char_of_byte (byte_of_char c) = c"
  by (simp add: char_of_byte_def byte_of_char_def unat_of_nat)

lemma string_bytes_roundtrip: "string_of_bytes (bytes_of_string s) = s"
  by (simp add: string_of_bytes_def bytes_of_string_def char_byte_roundtrip comp_def)

lemma uint_port_mod: "uint (word_of_int p :: 16 word) = p mod 65536"
  by (simp add: uint_word_of_int take_bit_eq_mod)

lemma ReadFull_append: "length xs = n \<Longrightarrow> ReadFull (xs @ ys) n = (Inr xs, ys)"
  by (simp add: ReadFull_def)

lemma ReadFull_Cons1: "ReadFull (x # xs) (Suc 0) = (Inr [x], xs)"
  by (simp add: ReadFull_def)

lemma ReadFull_port:
  "ReadFull (hi # lo # rest) 2 = (Inr [hi, lo], rest)"
  by (simp add: ReadFull_def)

lemma readAddrSpec_ipv4:
  assumes l: "length ip = 4"
  shows "readAddrSpec (ipv4Address # ip @ ucast (drop_bit 8 (w :: 16 word)) # ucast (w AND 0xff) # rest)
           = (Inr \<lparr>FQDN = [], IP = ip, Port = uint w\<rparr>, rest)"
  unfolding readAddrSpec_def
  by (simp add: ReadFull_Cons1 ReadFull_append [OF l] ReadFull_port port_bytes_value
        AddrSpec_zero_def del: append.simps)

lemma readAddrSpec_ipv6:
  assumes l: "length ip = 16"
  shows "readAddrSpec (ipv6Address # ip @ ucast (drop_bit 8 (w :: 16 word)) # ucast (w AND 0xff) # rest)
           = (Inr \<lparr>FQDN = [], IP = ip, Port = uint w\<rparr>, rest)"
  unfolding readAddrSpec_def
  by (simp add: ReadFull_Cons1 ReadFull_append [OF l] ReadFull_port port_bytes_value
        AddrSpec_zero_def ipv4Address_def ipv6Address_def del: append.simps)

lemma readAddrSpec_fqdn:
  assumes l: "length bs \<le> 255"
  shows "readAddrSpec (fqdnAddress # word_of_nat (length bs) # bs @
            ucast (drop_bit 8 (w :: 16 word)) # ucast (w AND 0xff) # rest)
           = (Inr \<lparr>FQDN = string_of_bytes bs, IP = [], Port = uint w\<rparr>, rest)"
proof -
  from l have u: "unat (word_of_nat (length bs) :: byte) = length bs"
    by (simp add: unat_of_nat)
  have b: "\<And>ys. ReadFull (bs @ ys) (length bs) = (Inr bs, ys)"
    by (rule ReadFull_append) simp
  show ?thesis
    unfolding readAddrSpec_def
    by (simp add: ReadFull_Cons1 u b ReadFull_port port_bytes_value AddrSpec_zero_def
          ipv4Address_def ipv6Address_def fqdnAddress_def del: append.simps)
qed

lemma sendReply_messages:
  "snd (sendReply wr resp addr) =
     (case format_address addr of None \<Rightarrow> [] | Some f \<Rightarrow> [reply_message resp f])"
  by (simp add: sendReply_def split: option.splits)

lemma address_part_reply:
  "address_part (reply_message resp (t, body, w)) =
     t # body @ [ucast (drop_bit 8 w), ucast (w AND 0xff)]"
  by (simp add: address_part_def reply_message_def)

lemma format_address_Some:
  assumes "FQDN a \<noteq> [] \<or> length (IP a) = 4 \<or> length (IP a) = 16"
  shows "\<exists>t body. format_address (Some a) = Some (t, body, word_of_int (Port a))"
  using assms by (auto simp add: format_address_def To4_def To16_def)

lemma port_bytes_reply:
  "port_bytes (reply_message resp (t, body, w)) = [ucast (drop_bit 8 w), ucast (w AND 0xff)]"
  by (simp add: port_bytes_def reply_message_def)

text \<open>
  C3, as amended. For an AddrSpec \<open>a\<close> that is a 4-byte IPv4 address, a 16-byte IPv6
  address that is not IPv4-mapped, or a non-empty FQDN of at most 255 bytes, with a port
  in 0..65535: \<^verbatim>\<open>sendReply\<close> writes one message, and \<^verbatim>\<open>readAddrSpec\<close> on the address
  part of that message (followed by any further bytes \<open>rest\<close>) returns \<open>a\<close> itself and
  leaves \<open>rest\<close>.
\<close>

theorem roundtrip_amended:
  assumes "is_ipv4_spec a \<or> (is_ipv6_spec a \<and> To4 (IP a) = None)
             \<or> (is_fqdn_spec a \<and> FQDN a \<noteq> [])"
  shows "\<exists>msg. snd (sendReply wr resp (Some a)) = [msg] \<and>
           readAddrSpec (address_part msg @ rest) = (Inr a, rest)"
proof -
  from assms consider
    (v4) "is_ipv4_spec a" | (v6) "is_ipv6_spec a" "To4 (IP a) = None"
    | (fq) "is_fqdn_spec a" "FQDN a \<noteq> []"
    by auto
  then show ?thesis
  proof cases
    case v4
    then have f: "format_address (Some a) = Some (ipv4Address, IP a, word_of_int (Port a))"
      by (simp add: format_address_def is_ipv4_spec_def To4_def)
    from v4 have p: "Port a mod 65536 = Port a"
      by (simp add: is_ipv4_spec_def)
    from v4 have "a = \<lparr>FQDN = [], IP = IP a, Port = Port a\<rparr>"
      by (simp add: is_ipv4_spec_def)
    with v4 have "readAddrSpec (address_part (reply_message resp
        (ipv4Address, IP a, word_of_int (Port a))) @ rest) = (Inr a, rest)"
      by (simp add: address_part_reply readAddrSpec_ipv4 is_ipv4_spec_def uint_port_mod p)
    with f show ?thesis
      by (simp add: sendReply_messages)
  next
    case v6
    then have f: "format_address (Some a) = Some (ipv6Address, IP a, word_of_int (Port a))"
      by (simp add: format_address_def is_ipv6_spec_def To16_def)
    from v6 have p: "Port a mod 65536 = Port a"
      by (simp add: is_ipv6_spec_def)
    from v6 have "a = \<lparr>FQDN = [], IP = IP a, Port = Port a\<rparr>"
      by (simp add: is_ipv6_spec_def)
    with v6 have "readAddrSpec (address_part (reply_message resp
        (ipv6Address, IP a, word_of_int (Port a))) @ rest) = (Inr a, rest)"
      by (simp add: address_part_reply readAddrSpec_ipv6 is_ipv6_spec_def uint_port_mod p)
    with f show ?thesis
      by (simp add: sendReply_messages)
  next
    case fq
    then have f: "format_address (Some a) =
        Some (fqdnAddress, word_of_nat (length (FQDN a)) # bytes_of_string (FQDN a),
              word_of_int (Port a))"
      by (simp add: format_address_def)
    from fq have p: "Port a mod 65536 = Port a"
      by (simp add: is_fqdn_spec_def)
    from fq have l: "length (bytes_of_string (FQDN a)) \<le> 255"
      and l': "length (bytes_of_string (FQDN a)) = length (FQDN a)"
      by (simp_all add: is_fqdn_spec_def bytes_of_string_def)
    from fq have "a = \<lparr>FQDN = FQDN a, IP = [], Port = Port a\<rparr>"
      by (simp add: is_fqdn_spec_def)
    with fq have "readAddrSpec (address_part (reply_message resp
        (fqdnAddress, word_of_nat (length (FQDN a)) # bytes_of_string (FQDN a),
         word_of_int (Port a))) @ rest) = (Inr a, rest)"
      using readAddrSpec_fqdn [OF l, of "word_of_int (Port a)" rest]
      by (simp add: address_part_reply is_fqdn_spec_def uint_port_mod p l' string_bytes_roundtrip)
    with f show ?thesis
      by (simp add: sendReply_messages)
  qed
qed

theorem roundtrip_witness:
  "\<exists>msg. snd (sendReply no_write_error successReply
             (Some \<lparr>FQDN = ''example.com'', IP = [], Port = 443\<rparr>)) = [msg] \<and>
         readAddrSpec (address_part msg @ [])
           = (Inr \<lparr>FQDN = ''example.com'', IP = [], Port = 443\<rparr>, [])"
  using roundtrip_amended [of "\<lparr>FQDN = ''example.com'', IP = [], Port = 443\<rparr>"
      no_write_error successReply "[]"]
  by (simp add: is_fqdn_spec_def)

text \<open>
  C3 as stated fails on an IPv4-mapped IPv6 address: \<^verbatim>\<open>To4\<close> is tried first, so the
  16 bytes of \<^verbatim>\<open>::ffff:1.2.3.4\<close> are written as type 1 with 4 bytes, and read back as the
  4-byte address. It also fails on the empty FQDN (with no IP), for which \<^verbatim>\<open>sendReply\<close>
  writes nothing and returns "failed to format address".
\<close>

theorem roundtrip_counterexample:
  "is_ipv6_spec \<lparr>FQDN = [], IP = [0,0,0,0,0,0,0,0,0,0,0xff,0xff,1,2,3,4], Port = 80\<rparr> \<and>
   snd (sendReply no_write_error successReply
         (Some \<lparr>FQDN = [], IP = [0,0,0,0,0,0,0,0,0,0,0xff,0xff,1,2,3,4], Port = 80\<rparr>))
     = [[5, 0, 0, 1, 1, 2, 3, 4, 0, 80]] \<and>
   readAddrSpec (address_part [5, 0, 0, 1, 1, 2, 3, 4, 0, 80])
     = (Inr \<lparr>FQDN = [], IP = [1, 2, 3, 4], Port = 80\<rparr>, []) \<and>
   is_fqdn_spec \<lparr>FQDN = [], IP = [], Port = 80\<rparr> \<and>
   sendReply no_write_error successReply (Some \<lparr>FQDN = [], IP = [], Port = 80\<rparr>)
     = (Some (Errorf ''failed to format address: %v'' None), [])"
  by (simp add: is_ipv6_spec_def is_fqdn_spec_def sendReply_def format_address_def To4_def
      To16_def isZeros_def reply_message_def socks5Version_def ipv4Address_def successReply_def
      address_part_def readAddrSpec_def ReadFull_def AddrSpec_zero_def read_port_def
      no_write_error_def)

text \<open>
  C5. On a stream whose first byte is none of 1, 3 and 4, \<^verbatim>\<open>readAddrSpec\<close> fails with
  \<^verbatim>\<open>unrecognizedAddrType\<close> and the stream is left at its second byte: one byte consumed.
\<close>

theorem readAddrSpec_unrecognized:
  assumes "t \<noteq> 1" and "t \<noteq> 3" and "t \<noteq> 4"
  shows "readAddrSpec (t # rest) = (Inl unrecognizedAddrType, rest)"
  using assms
  by (simp add: readAddrSpec_def ReadFull_Cons1 ipv4Address_def ipv6Address_def fqdnAddress_def)

theorem readAddrSpec_unrecognized_witness:
  "(2 :: byte) \<noteq> 1 \<and> (2 :: byte) \<noteq> 3 \<and> (2 :: byte) \<noteq> 4 \<and>
   readAddrSpec [2, 127, 0, 0, 1, 0, 80] = (Inl unrecognizedAddrType, [127, 0, 0, 1, 0, 80])"
  using readAddrSpec_unrecognized [of 2 "[127, 0, 0, 1, 0, 80]"]
  by simp

text \<open>
  C9. On a stream that starts with the version byte, any command byte \<open>cmd\<close>, any
  reserved byte \<open>rsv\<close>, and an address that \<^verbatim>\<open>readAddrSpec\<close> parses, \<^verbatim>\<open>NewRequest\<close>
  succeeds with Version 5, Command \<open>cmd\<close> and the parsed destination; the result is the
  same for any other reserved byte \<open>rsv'\<close>.
\<close>

theorem NewRequest_reserved_ignored:
  assumes "readAddrSpec rest = (Inr dest, rest')"
  shows "NewRequest (socks5Version # cmd # rsv # rest)
           = (Inr \<lparr>Version = 5, Command = cmd, AuthContext = None, RemoteAddr = None,
                   DestAddr = Some dest\<rparr>, rest') \<and>
         NewRequest (socks5Version # cmd # rsv' # rest)
           = NewRequest (socks5Version # cmd # rsv # rest)"
  using assms
  by (simp add: NewRequest_def ReadFull_def socks5Version_def)

theorem NewRequest_reserved_ignored_witness:
  "readAddrSpec [1, 93, 184, 216, 34, 0, 80]
     = (Inr \<lparr>FQDN = [], IP = [93, 184, 216, 34], Port = 80\<rparr>, []) \<and>
   NewRequest [5, 9, 0xAA, 1, 93, 184, 216, 34, 0, 80]
     = (Inr \<lparr>Version = 5, Command = 9, AuthContext = None, RemoteAddr = None,
             DestAddr = Some \<lparr>FQDN = [], IP = [93, 184, 216, 34], Port = 80\<rparr>\<rparr>, []) \<and>
   NewRequest [5, 9, 0, 1, 93, 184, 216, 34, 0, 80]
     = NewRequest [5, 9, 0xAA, 1, 93, 184, 216, 34, 0, 80]"
proof -
  have h: "readAddrSpec [1, 93, 184, 216, 34, 0, 80]
             = (Inr \<lparr>FQDN = [], IP = [93, 184, 216, 34], Port = 80\<rparr>, [])"
    by (simp add: readAddrSpec_def ReadFull_def ipv4Address_def AddrSpec_zero_def read_port_def)
  from NewRequest_reserved_ignored [OF h, of 9 "0xAA" 0] h show ?thesis
    by (simp add: socks5Version_def)
qed

text \<open>
  C10, as amended. For every address that \<^verbatim>\<open>sendReply\<close> can format (a non-empty FQDN, or
  an IP of 4 or 16 bytes), one message is written and its two port bytes encode
  \<open>Port mod 2^16\<close>; so for \<open>Port = 65536 + k\<close> with \<open>0 \<le> k < 65536\<close> they encode \<open>k\<close>.
\<close>

theorem sendReply_port_mod:
  assumes "FQDN a \<noteq> [] \<or> length (IP a) = 4 \<or> length (IP a) = 16"
  shows "\<exists>msg. snd (sendReply wr resp (Some a)) = [msg] \<and>
           read_port (port_bytes msg) = Port a mod 65536 \<and>
           (Port a = 65536 + k \<and> 0 \<le> k \<and> k < 65536 \<longrightarrow> read_port (port_bytes msg) = k)"
proof -
  from format_address_Some [OF assms] obtain t body
    where f: "format_address (Some a) = Some (t, body, word_of_int (Port a))" by blast
  have "read_port (port_bytes (reply_message resp (t, body, word_of_int (Port a))))
          = Port a mod 65536"
    by (simp only: port_bytes_reply port_bytes_value uint_port_mod)
  with f show ?thesis
    by (auto simp add: sendReply_messages)
qed

theorem sendReply_port_mod_witness:
  "\<exists>msg. snd (sendReply no_write_error successReply
             (Some \<lparr>FQDN = [], IP = [10, 0, 0, 1], Port = 65536 + 8080\<rparr>)) = [msg] \<and>
         read_port (port_bytes msg) = 8080"
  using sendReply_port_mod [where a = "\<lparr>FQDN = [], IP = [10, 0, 0, 1], Port = 65536 + 8080\<rparr>"
      and k = 8080 and wr = no_write_error and resp = successReply]
  by simp

text \<open>
  C10 as stated fails for \<open>k \<ge> 65536\<close>: with \<open>Port = 65536 + 65536\<close> the port bytes
  encode 0, not \<open>k = 65536\<close>.
\<close>

theorem sendReply_port_counterexample:
  "snd (sendReply no_write_error successReply
         (Some \<lparr>FQDN = [], IP = [10, 0, 0, 1], Port = 65536 + 65536\<rparr>))
     = [[5, 0, 0, 1, 10, 0, 0, 1, 0, 0]] \<and>
   read_port (port_bytes [5, 0, 0, 1, 10, 0, 0, 1, 0, 0]) = 0 \<and>
   read_port (port_bytes [5, 0, 0, 1, 10, 0, 0, 1, 0, 0]) \<noteq> 65536"
  by (simp add: sendReply_def format_address_def To4_def reply_message_def socks5Version_def
      ipv4Address_def successReply_def port_bytes_def read_port_def no_write_error_def)

subsection \<open>The command handlers\<close>

text \<open>\<^verbatim>\<open>Contains\<close> is the substring test.\<close>

lemma HasPrefix_iff: "HasPrefix s p \<longleftrightarrow> (\<exists>q. s = p @ q)"
  by (induction s p rule: HasPrefix.induct) auto

lemma Contains_iff: "Contains s sub \<longleftrightarrow> (\<exists>p q. s = p @ sub @ q)"
proof (induction s)
  case Nil
  then show ?case by auto
next
  case (Cons c cs)
  show ?case
  proof
    assume "Contains (c # cs) sub"
    then consider "HasPrefix (c # cs) sub" | "Contains cs sub" by auto
    then show "\<exists>p q. c # cs = p @ sub @ q"
    proof cases
      case 1
      then obtain q where "c # cs = sub @ q" by (auto simp: HasPrefix_iff)
      then have "c # cs = [] @ sub @ q" by simp
      then show ?thesis by blast
    next
      case 2
      with Cons obtain p q where "cs = p @ sub @ q" by blast
      then have "c # cs = (c # p) @ sub @ q" by simp
      then show ?thesis by blast
    qed
  next
    assume "\<exists>p q. c # cs = p @ sub @ q"
    then obtain p q where e: "c # cs = p @ sub @ q" by blast
    show "Contains (c # cs) sub"
    proof (cases p)
      case Nil
      with e have "HasPrefix (c # cs) sub" by (auto simp: HasPrefix_iff)
      then show ?thesis by simp
    next
      case (Cons a p')
      with e have "cs = p' @ sub @ q" by simp
      with Cons.IH have "Contains cs sub" by blast
      then show ?thesis by simp
    qed
  qed
qed

lemma reply_nil:
  "reply e resp None =
     (conn_Write e (error_reply resp), [Write (error_reply resp)])"
  by (simp add: reply_def sendReply_def format_address_def reply_message_def error_reply_def
      socks5Version_def ipv4Address_def)

text \<open>
  C6. When the dial of \<^verbatim>\<open>handleConnect\<close> fails with an error of text \<open>msg\<close>, the handler
  returns an error, and what it does is the dial and one \<^verbatim>\<open>Write\<close>, of the reply with
  code 5 when \<open>msg\<close> contains "refused", else 3 when it contains "network is
  unreachable", else 4: no relay.
\<close>

theorem handleConnect_dial_failure:
  assumes "DestAddr req = Some dest" and "DialContext e (Address dest) = Inl msg"
  shows "(\<exists>err. fst (handleConnect e m req) = Return (Some err)) \<and>
         fst (snd (handleConnect e m req)) =
           [Dial (Address dest),
            Write (error_reply
              (if Contains msg ''refused'' then 5
               else if Contains msg ''network is unreachable'' then 3
               else 4))]"
  using assms
  by (cases "conn_Write e (error_reply 5)"; cases "conn_Write e (error_reply 3)";
      cases "conn_Write e (error_reply 4)")
     (simp_all add: handleConnect_def reply_nil connectionRefused_def networkUnreachable_def
       hostUnreachable_def)


theorem handleConnect_dial_failure_witness:
  "fst (handleConnect
         (sample_env\<lparr>DialContext := (\<lambda>a. Inl ''connect: network is unreachable'')\<rparr>) metrics_zero
         \<lparr>Version = 5, Command = 1, AuthContext = None, RemoteAddr = None,
          DestAddr = Some \<lparr>FQDN = [], IP = [10, 0, 0, 1], Port = 80\<rparr>\<rparr>)
     = Return (Some (Errorf ''connect to %v failed: %w''
                 (Some (External ''connect: network is unreachable'')))) \<and>
   fst (snd (handleConnect
         (sample_env\<lparr>DialContext := (\<lambda>a. Inl ''connect: network is unreachable'')\<rparr>) metrics_zero
         \<lparr>Version = 5, Command = 1, AuthContext = None, RemoteAddr = None,
          DestAddr = Some \<lparr>FQDN = [], IP = [10, 0, 0, 1], Port = 80\<rparr>\<rparr>))
     = [Dial (JoinHostPort_IP [10, 0, 0, 1] 80), Write [5, 3, 0, 1, 0, 0, 0, 0, 0, 0]]"
proof -
  let ?e = "sample_env\<lparr>DialContext := (\<lambda>a. Inl ''connect: network is unreachable'')\<rparr>"
  let ?d = "\<lparr>FQDN = [], IP = [10, 0, 0, 1], Port = 80\<rparr>"
  let ?r = "\<lparr>Version = 5, Command = 1, AuthContext = None, RemoteAddr = None, DestAddr = Some ?d\<rparr>"
  have 1: "DestAddr ?r = Some ?d" by simp
  have 2: "DialContext ?e (Address ?d) = Inl ''connect: network is unreachable''" by simp
  have 3: "fst (handleConnect ?e metrics_zero ?r)
             = Return (Some (Errorf ''connect to %v failed: %w''
                 (Some (External ''connect: network is unreachable''))))"
    by (simp add: handleConnect_def reply_nil sample_env_def no_write_error_def)
  from handleConnect_dial_failure [OF 1 2, of metrics_zero] 3 show ?thesis
    by (simp add: Address_def error_reply_def)
qed

text \<open>
  C7. A request with command 2 that reaches the dispatch of \<^verbatim>\<open>handleRequest\<close> (it has a
  destination \<open>dest\<close>; its FQDN, if any, resolves, which makes the destination \<open>dest'\<close>;
  the policy lets \<open>dest'\<close> pass): the handler does one \<^verbatim>\<open>Write\<close>, of the reply with code
  7, and nothing else; when that write succeeds it returns \<^verbatim>\<open>nil\<close>.
\<close>

theorem bind_refused:
  assumes "Command req = BindCommand"
    and "DestAddr req = Some dest"
    and "(FQDN dest = [] \<and> dest' = dest) \<or>
         (FQDN dest \<noteq> [] \<and> Resolve e (FQDN dest) = Inr addr \<and> dest' = dest\<lparr>IP := addr\<rparr>)"
    and "AllowLocalDestination e \<or> \<not> isLocalhostDest (Some (req\<lparr>DestAddr := Some dest'\<rparr>))"
  shows "fst (snd (handleRequest e m req)) = [Write (error_reply 7)] \<and>
         (conn_Write e (error_reply 7) = None \<longrightarrow> fst (handleRequest e m req) = Return None)"
  using assms
  by (cases "conn_Write e (error_reply 7)")
     (auto simp add: handleRequest_def handleBind_def reply_nil commandNotSupported_def
       BindCommand_def ConnectCommand_def Let_def)

theorem bind_refused_witness:
  "handleRequest (sample_env\<lparr>AllowLocalDestination := True\<rparr>) metrics_zero
     \<lparr>Version = 5, Command = 2, AuthContext = None, RemoteAddr = None,
      DestAddr = Some \<lparr>FQDN = [], IP = [93, 184, 216, 34], Port = 80\<rparr>\<rparr>
   = (Return None, [Write [5, 7, 0, 1, 0, 0, 0, 0, 0, 0]],
      metrics_zero\<lparr>Socks5UnsupportedCommandErrors := 1\<rparr>)"
proof -
  let ?e = "sample_env\<lparr>AllowLocalDestination := True\<rparr>"
  let ?d = "\<lparr>FQDN = [], IP = [93, 184, 216, 34], Port = 80\<rparr>"
  let ?r = "\<lparr>Version = 5, Command = 2, AuthContext = None, RemoteAddr = None, DestAddr = Some ?d\<rparr>"
  have 1: "Command ?r = BindCommand" by (simp add: BindCommand_def)
  have 2: "DestAddr ?r = Some ?d" by simp
  have 3: "(FQDN ?d = [] \<and> ?d = ?d) \<or>
         (FQDN ?d \<noteq> [] \<and> Resolve ?e (FQDN ?d) = Inr [] \<and> ?d = ?d\<lparr>IP := []\<rparr>)" by simp
  have 4: "AllowLocalDestination ?e \<or> \<not> isLocalhostDest (Some (?r\<lparr>DestAddr := Some ?d\<rparr>))"
    by simp
  have 5: "conn_Write ?e (error_reply 7) = None"
    by (simp add: sample_env_def no_write_error_def)
  have 6: "snd (snd (handleRequest ?e metrics_zero ?r))
             = metrics_zero\<lparr>Socks5UnsupportedCommandErrors := 1\<rparr>"
    by (simp add: handleRequest_def handleBind_def reply_nil BindCommand_def ConnectCommand_def
          metrics_zero_def sample_env_def no_write_error_def Let_def)
  from bind_refused [OF 1 2 3 4, of metrics_zero] 5 6 show ?thesis
    by (simp add: error_reply_def prod_eq_iff)
qed

text \<open>
  C8, as amended. Local destinations are not allowed, the request has a destination
  \<open>dest\<close>, its FQDN, if any, resolves, which makes the destination \<open>dest'\<close>, and \<open>dest'\<close>
  has the FQDN "localhost" or a loopback IP: \<^verbatim>\<open>handleRequest\<close> returns the policy error,
  writes nothing and counts nothing.
\<close>

theorem policy_denied_no_reply:
  assumes "\<not> AllowLocalDestination e"
    and "DestAddr req = Some dest"
    and "(FQDN dest = [] \<and> dest' = dest) \<or>
         (FQDN dest \<noteq> [] \<and> Resolve e (FQDN dest) = Inr addr \<and> dest' = dest\<lparr>IP := addr\<rparr>)"
    and "FQDN dest' = ''localhost'' \<or> IsLoopback (IP dest')"
  shows "handleRequest e m req =
           (Return (Some (Errorf ''access to localhost resource via proxy is not allowed'' None)),
            [], m)"
  using assms
  by (auto simp add: handleRequest_def isLocalhostDest_def)

theorem policy_denied_no_reply_witness:
  "handleRequest (sample_env\<lparr>Resolve := (\<lambda>name. Inr [127, 0, 0, 1])\<rparr>) metrics_zero
     \<lparr>Version = 5, Command = 1, AuthContext = None, RemoteAddr = None,
      DestAddr = Some \<lparr>FQDN = ''localhost'', IP = [], Port = 80\<rparr>\<rparr>
   = (Return (Some (Errorf ''access to localhost resource via proxy is not allowed'' None)),
      [], metrics_zero)"
proof -
  let ?e = "sample_env\<lparr>Resolve := (\<lambda>name. Inr [127, 0, 0, 1])\<rparr>"
  let ?d = "\<lparr>FQDN = ''localhost'', IP = [], Port = 80\<rparr>"
  let ?r = "\<lparr>Version = 5, Command = 1, AuthContext = None, RemoteAddr = None, DestAddr = Some ?d\<rparr>"
  have 1: "\<not> AllowLocalDestination ?e" by (simp add: sample_env_def)
  have 2: "DestAddr ?r = Some ?d" by simp
  have 3: "(FQDN ?d = [] \<and> ?d\<lparr>IP := [127, 0, 0, 1]\<rparr> = ?d) \<or>
         (FQDN ?d \<noteq> [] \<and> Resolve ?e (FQDN ?d) = Inr [127, 0, 0, 1] \<and>
          ?d\<lparr>IP := [127, 0, 0, 1]\<rparr> = ?d\<lparr>IP := [127, 0, 0, 1]\<rparr>)" by simp
  have 4: "FQDN (?d\<lparr>IP := [127, 0, 0, 1]\<rparr>) = ''localhost'' \<or> IsLoopback (IP (?d\<lparr>IP := [127, 0, 0, 1]\<rparr>))"
    by simp
  from policy_denied_no_reply [OF 1 2 3 4, of metrics_zero] show ?thesis .
qed

text \<open>
  C8 as stated fails when the FQDN "localhost" does not resolve: resolution comes before
  the policy check, and its failure path writes a reply with code 4 (host unreachable).
\<close>

theorem policy_denied_counterexample:
  "\<not> AllowLocalDestination sample_env \<and>
   handleRequest sample_env metrics_zero
     \<lparr>Version = 5, Command = 1, AuthContext = None, RemoteAddr = None,
      DestAddr = Some \<lparr>FQDN = ''localhost'', IP = [], Port = 80\<rparr>\<rparr>
   = (Return (Some (Errorf ''failed to resolve destination %q: %w''
                (Some (External ''no such host'')))),
      [Write [5, 4, 0, 1, 0, 0, 0, 0, 0, 0]],
      metrics_zero\<lparr>Socks5DNSResolveErrors := 1\<rparr>)"
  by (simp add: handleRequest_def reply_nil sample_env_def no_write_error_def error_reply_def
      hostUnreachable_def metrics_zero_def)


subsection \<open>The outbound pump\<close>

lemma reject_empty_box:
  "udpErr s = None \<Longrightarrow>
   reject e s err =
     (Returns, s\<lparr>udpErr := Some err, counters := count_associate_error (counters s)\<rparr>)"
  by (simp add: reject_def Value_Store_def)

lemma reject_other_type:
  "udpErr s = Some old \<Longrightarrow> concrete_type e old \<noteq> concrete_type e err \<Longrightarrow>
   reject e s err = (Panics, s)"
  by (simp add: reject_def Value_Store_def)

lemma rejected_with_reject: "udpErr s = None \<Longrightarrow> rejected_with err s (reject e s err)"
  by (simp add: rejected_with_def reject_empty_box count_associate_error_def)

lemma rejected_reject:
  "udpErr s = None \<Longrightarrow>
   err = ErrNoEnoughData \<or> err = ErrInvalidArgument \<or> err = ErrUnsupported \<Longrightarrow>
   rejected s (reject e s err)"
  using rejected_with_reject [of s err e] by (auto simp add: rejected_def)

lemma write_udp_Loop: "fst (write_udp e s payload a) = Loop"
  by (simp add: write_udp_def Let_def split: sum.splits)

lemma not_rejected_with_Loop: "fst r \<noteq> Returns \<Longrightarrow> \<not> rejected_with err s r"
  by (simp add: rejected_with_def)

lemma too_short_rejected:
  assumes box: "udpErr s = None" and "too_short (buf s) n"
  shows "rejected s (outbound_datagram e s n)"
proof -
  have r: "\<And>err. err = ErrNoEnoughData \<or> err = ErrInvalidArgument \<or> err = ErrUnsupported \<Longrightarrow>
             rejected s (reject e s err)"
    by (rule rejected_reject [OF box])
  from assms(2) have t:
    "(buf s ! 3 = 1 \<and> n \<le> 10) \<or> (buf s ! 3 = 3 \<and> n \<le> unat (buf s ! 4) + 6)
       \<or> (buf s ! 3 = 4 \<and> n \<le> 22)"
    by (auto simp add: too_short_def)
  show ?thesis
  proof (cases "n \<le> 6")
    case True
    then show ?thesis by (simp add: outbound_datagram_def r)
  next
    case n: False
    show ?thesis
    proof (cases "buf s ! 0 \<noteq> 0 \<or> buf s ! 1 \<noteq> 0")
      case True
      with n show ?thesis by (simp add: outbound_datagram_def r)
    next
      case z: False
      show ?thesis
      proof (cases "buf s ! 2 \<noteq> 0")
        case True
        with n z show ?thesis by (simp add: outbound_datagram_def r)
      next
        case False
        with n z t show ?thesis
          by (simp add: outbound_datagram_def Let_def r)
      qed
    qed
  qed
qed

lemma passes_not_returns:
  assumes "header_ok (buf s) n" and "\<not> too_short (buf s) n"
  shows "fst (outbound_datagram e s n) \<noteq> Returns"
proof -
  from assms(1) have g: "\<not> n \<le> 6" "buf s ! 0 = 0" "buf s ! 1 = 0" "buf s ! 2 = 0"
    and t: "buf s ! 3 = 1 \<or> buf s ! 3 = 3 \<or> buf s ! 3 = 4"
    by (simp_all add: header_ok_def)
  from t show ?thesis
  proof (elim disjE)
    assume a: "buf s ! 3 = 1"
    with assms(2) have "\<not> n \<le> 10" by (simp add: too_short_def)
    with a g show ?thesis
      by (simp add: outbound_datagram_def Let_def write_udp_Loop split: option.splits)
  next
    assume a: "buf s ! 3 = 3"
    with assms(2) have "\<not> n \<le> unat (buf s ! 4) + 6" by (simp add: too_short_def)
    with a g show ?thesis
      by (simp add: outbound_datagram_def Let_def write_udp_Loop split: option.splits sum.splits)
  next
    assume a: "buf s ! 3 = 4"
    with assms(2) have "\<not> n \<le> 22" by (simp add: too_short_def)
    with a g show ?thesis
      by (simp add: outbound_datagram_def Let_def write_udp_Loop split: option.splits)
  qed
qed

text \<open>
  C4, as amended. While the error box is empty (no pump has stored an error): a datagram
  that meets the length condition (ATYP 1 and \<open>n \<le> 10\<close>, ATYP 4 and \<open>n \<le> 22\<close>, ATYP 3 and
  \<open>n \<le> 6 +\<close> the declared FQDN length) is rejected; and among the datagrams whose header
  passes the earlier checks (\<open>n > 6\<close>, reserved bytes zero, fragment byte zero, ATYP in 1,
  3, 4) a datagram is rejected exactly when it meets the length condition. (On a box that
  holds an error of another concrete type the store of the rejection panics, see
  \<open>too_short_other_type\<close> below.)
\<close>

theorem length_guard:
  assumes "udpErr s = None"
  shows "(too_short (buf s) n \<longrightarrow> rejected s (outbound_datagram e s n)) \<and>
         (header_ok (buf s) n \<longrightarrow>
            (rejected s (outbound_datagram e s n) \<longleftrightarrow> too_short (buf s) n))"
  using too_short_rejected [OF assms, of n e] passes_not_returns [of s n e]
  by (auto simp add: rejected_def rejected_with_def)


lemma outbound_step_first:
  assumes "length d \<le> 65536"
  shows "outbound_step e (pump_init m) d =
           outbound_datagram e ((pump_init m)\<lparr>buf := d @ replicate (65536 - length d) 0\<rparr>)
             (length d)"
  using assms by (simp add: outbound_step_def tunnel_Read_def pump_init_def)

lemma fragment_rejected:
  assumes "6 < n" and "buf s ! 0 = 0" and "buf s ! 1 = 0" and "buf s ! 2 \<noteq> 0"
  shows "outbound_datagram e s n = reject e s ErrUnsupported"
  using assms by (simp add: outbound_datagram_def)

text \<open>
  An IPv4 datagram that passes the checks is written with the payload \<^verbatim>\<open>buf[10:n+1]\<close>: the
  \<open>n - 10\<close> bytes after the header and the byte \<open>buf ! n\<close>, which the read did not write.
\<close>

lemma ipv4_payload:
  assumes n: "10 < n" "n < length (buf s)"
    and h: "buf s ! 0 = 0" "buf s ! 1 = 0" "buf s ! 2 = 0" "buf s ! 3 = 1"
  shows "outbound_datagram e s n =
           write_udp e s (take (n - 10) (drop 10 (buf s)) @ [buf s ! n])
             (take 4 (drop 4 (buf s)), udp_port (buf s ! 8) (buf s ! 9))"
proof -
  from n have "n - 10 < length (drop 10 (buf s))" by simp
  then have "take (Suc (n - 10)) (drop 10 (buf s))
               = take (n - 10) (drop 10 (buf s)) @ [drop 10 (buf s) ! (n - 10)]"
    by (rule take_Suc_conv_app_nth)
  moreover from n have "Suc (n - 10) = n + 1 - 10" and "drop 10 (buf s) ! (n - 10) = buf s ! n"
    by simp_all
  ultimately have "take (n + 1 - 10) (drop 10 (buf s))
                     = take (n - 10) (drop 10 (buf s)) @ [buf s ! n]"
    by simp
  with n h show ?thesis
    by (simp add: outbound_datagram_def go_slice_def Let_def)
qed

lemma udp_writes_write_udp:
  "udp_writes (snd (write_udp e s payload a)) = udp_writes s @ [(payload, a)]"
  by (simp add: write_udp_def Let_def split: sum.splits)

theorem length_guard_witness:
  "rejected (pump_init metrics_zero)
     (outbound_step sample_env (pump_init metrics_zero) [0, 0, 0, 1, 8, 8, 8, 8, 0, 53]) \<and>
   \<not> rejected (pump_init metrics_zero)
     (outbound_step sample_env (pump_init metrics_zero) [0, 0, 0, 1, 8, 8, 8, 8, 0, 53, 0xAB])"
proof -
  let ?s = "pump_init metrics_zero"
  let ?d10 = "[0, 0, 0, 1, 8, 8, 8, 8, 0, 53] :: byte list"
  let ?d11 = "[0, 0, 0, 1, 8, 8, 8, 8, 0, 53, 0xAB] :: byte list"
  let ?s10 = "?s\<lparr>buf := ?d10 @ replicate (65536 - length ?d10) 0\<rparr>"
  let ?s11 = "?s\<lparr>buf := ?d11 @ replicate (65536 - length ?d11) 0\<rparr>"
  have a: "too_short (buf ?s10) (length ?d10)" by (simp add: too_short_def)
  have b: "header_ok (buf ?s11) (length ?d11)" by (simp add: header_ok_def)
  have c: "\<not> too_short (buf ?s11) (length ?d11)" by (simp add: too_short_def)
  have r: "\<And>r. rejected ?s10 r = rejected ?s r" "\<And>r. rejected ?s11 r = rejected ?s r"
    by (simp_all add: rejected_def rejected_with_def)
  have s10: "outbound_step sample_env ?s ?d10 = outbound_datagram sample_env ?s10 (length ?d10)"
    by (rule outbound_step_first) simp
  have s11: "outbound_step sample_env ?s ?d11 = outbound_datagram sample_env ?s11 (length ?d11)"
    by (rule outbound_step_first) simp
  have e10: "udpErr ?s10 = None" and e11: "udpErr ?s11 = None"
    by (simp_all add: pump_init_def)
  from length_guard [OF e10, of "length ?d10" sample_env]
    length_guard [OF e11, of "length ?d11" sample_env] a b c
  show ?thesis
    by (simp only: s10 s11 r simp_thms)
qed

text \<open>
  C4 as stated fails in the direction "only when": a datagram of 11 bytes with ATYP 1 and
  a non-zero fragment byte does not meet the length condition and is rejected all the
  same (with \<^verbatim>\<open>ErrUnsupported\<close>).
\<close>

theorem length_guard_counterexample:
  "rejected (pump_init metrics_zero)
     (outbound_step sample_env (pump_init metrics_zero) [0, 0, 1, 1, 8, 8, 8, 8, 0, 53, 0xAB]) \<and>
   \<not> too_short [0, 0, 1, 1, 8, 8, 8, 8, 0, 53, 0xAB] 11"
proof -
  let ?s = "pump_init metrics_zero"
  let ?d = "[0, 0, 1, 1, 8, 8, 8, 8, 0, 53, 0xAB] :: byte list"
  let ?s' = "?s\<lparr>buf := ?d @ replicate (65536 - length ?d) 0\<rparr>"
  have "outbound_step sample_env ?s ?d = outbound_datagram sample_env ?s' (length ?d)"
    by (rule outbound_step_first) simp
  also have "\<dots> = reject sample_env ?s' ErrUnsupported"
    by (rule fragment_rejected) simp_all
  finally have "rejected_with ErrUnsupported ?s (outbound_step sample_env ?s ?d)"
    by (simp add: rejected_with_def reject_def Value_Store_def count_associate_error_def
        pump_init_def)
  then show ?thesis
    by (simp add: rejected_def too_short_def)
qed

text \<open>
  The length guard on a box that already holds an error of another concrete type (the
  inbound pump has stored its error): the store of \<^verbatim>\<open>ErrNoEnoughData\<close> panics, and the
  pump neither counts nor returns.
\<close>

lemma too_short_other_type:
  assumes "header_ok (buf s) n" and "too_short (buf s) n"
    and "udpErr s = Some old" and "concrete_type e old \<noteq> concrete_type e ErrNoEnoughData"
  shows "outbound_datagram e s n = (Panics, s)"
proof -
  from assms(1) have g: "\<not> n \<le> 6" "buf s ! 0 = 0" "buf s ! 1 = 0" "buf s ! 2 = 0"
    and t: "buf s ! 3 = 1 \<or> buf s ! 3 = 3 \<or> buf s ! 3 = 4"
    by (simp_all add: header_ok_def)
  from assms(2) have l:
    "(buf s ! 3 = 1 \<and> n \<le> 10) \<or> (buf s ! 3 = 3 \<and> n \<le> unat (buf s ! 4) + 6)
       \<or> (buf s ! 3 = 4 \<and> n \<le> 22)"
    by (auto simp add: too_short_def)
  from t have "outbound_datagram e s n = reject e s ErrNoEnoughData"
  proof (elim disjE)
    assume "buf s ! 3 = 1"
    with g l show ?thesis by (simp add: outbound_datagram_def Let_def)
  next
    assume "buf s ! 3 = 3"
    with g l show ?thesis by (simp add: outbound_datagram_def Let_def)
  next
    assume "buf s ! 3 = 4"
    with g l show ?thesis by (simp add: outbound_datagram_def Let_def)
  qed
  with reject_other_type [OF assms(3) assms(4)] show ?thesis
    by simp
qed

text \<open>
  C1 fails on the code. The well-formed datagram of 11 bytes with destination
  8.8.8.8:53 and the one DATA byte \<open>0xAB\<close>, read into the fresh buffer, makes the pump
  write two bytes: the payload is \<^verbatim>\<open>buf[10:n+1]\<close>, the DATA byte and the buffer byte
  after the datagram.
\<close>

theorem udp_payload_extra_byte:
  "udp_writes (snd (outbound_step sample_env (pump_init metrics_zero)
      [0, 0, 0, 1, 8, 8, 8, 8, 0, 53, 0xAB]))
   = [([0xAB, 0], ([8, 8, 8, 8], 53))]"
proof -
  let ?s = "pump_init metrics_zero"
  let ?d = "[0, 0, 0, 1, 8, 8, 8, 8, 0, 53, 0xAB] :: byte list"
  let ?s' = "?s\<lparr>buf := ?d @ replicate (65536 - length ?d) 0\<rparr>"
  have "outbound_step sample_env ?s ?d = outbound_datagram sample_env ?s' (length ?d)"
    by (rule outbound_step_first) simp
  also have "\<dots> = write_udp sample_env ?s'
       (take (length ?d - 10) (drop 10 (buf ?s')) @ [buf ?s' ! length ?d])
       (take 4 (drop 4 (buf ?s')), udp_port (buf ?s' ! 8) (buf ?s' ! 9))"
    by (rule ipv4_payload) simp_all
  finally show ?thesis
    by (simp add: udp_writes_write_udp udp_port_def pump_init_def)
qed


text \<open>
  Two ways a datagram that passes the checks makes the pump panic: a datagram that fills
  the buffer (\<^verbatim>\<open>buf[10:n+1]\<close> is out of range), and a declared FQDN length of 251 or
  more (\<^verbatim>\<open>5+fqdnLen\<close> wraps around in \<^verbatim>\<open>uint8\<close>, so \<^verbatim>\<open>buf[5:5+fqdnLen]\<close> has its upper
  bound below 5).
\<close>

lemma full_buffer_panics:
  assumes l: "length (buf s) = 65536"
    and h: "buf s ! 0 = 0" "buf s ! 1 = 0" "buf s ! 2 = 0" "buf s ! 3 = 1"
  shows "outbound_datagram e s 65536 = (Panics, s)"
proof -
  from l have a: "go_slice (buf s) 4 8 = Some (take 4 (drop 4 (buf s)))"
    by (simp add: go_slice_def)
  from l have b: "go_slice (buf s) 10 65537 = None"
    by (simp add: go_slice_def)
  from h show ?thesis
    by (simp add: outbound_datagram_def Let_def a b)
qed

lemma unat_wrap5:
  fixes w :: byte
  assumes "251 \<le> unat w"
  shows "unat (5 + w) < 5"
proof -
  have b: "unat w < 256" using unsigned_less [of w, where ?'a = nat] by simp
  have "unat (5 + w) = (5 + unat w) mod 256"
    by (simp add: unat_word_ariths)
  also from assms b have "\<dots> = 5 + unat w - 256"
    by (simp add: mod_if)
  finally show ?thesis using b by simp
qed

lemma fqdn_offsets_wrap:
  assumes g: "6 < n" "buf s ! 0 = 0" "buf s ! 1 = 0" "buf s ! 2 = 0" "buf s ! 3 = 3"
    and l: "unat (buf s ! 4) + 6 < n" and w: "251 \<le> unat (buf s ! 4)"
  shows "outbound_datagram e s n = (Panics, s)"
proof -
  from w have "unat (5 + buf s ! 4) < 5"
    by (rule unat_wrap5)
  then have "go_slice (buf s) 5 (unat (5 + buf s ! 4)) = None"
    by (simp add: go_slice_def)
  with g l show ?thesis
    by (simp add: outbound_datagram_def Let_def)
qed

text \<open>Whenever the pump returns, an error is in the box.\<close>

lemma stores_on_return_reject: "stores_on_return (reject e s err)"
  by (simp add: stores_on_return_def reject_def Value_Store_def split: option.split)

lemma stores_on_return_write: "stores_on_return (write_udp e s payload a)"
  by (simp add: stores_on_return_def write_udp_Loop)

lemma stores_on_return_other: "c \<noteq> Returns \<Longrightarrow> stores_on_return (c, s)"
  by (simp add: stores_on_return_def)

lemma stores_on_return_datagram: "stores_on_return (outbound_datagram e s n)"
  unfolding outbound_datagram_def Let_def
  by (simp add: stores_on_return_reject stores_on_return_write stores_on_return_other
      split: option.split sum.split)

lemma outbound_datagram_returns:
  assumes "fst (outbound_datagram e s n) = Returns"
  shows "udpErr (snd (outbound_datagram e s n)) \<noteq> None"
  using assms stores_on_return_datagram [of e s n]
  by (simp add: stores_on_return_def)

lemma outbound_pump_returns:
  "fst (outbound_pump e s reads) = Returns \<Longrightarrow> udpErr (snd (outbound_pump e s reads)) \<noteq> None"
proof (induction reads arbitrary: s)
  case Nil
  then show ?case by simp
next
  case (Cons r reads)
  show ?case
  proof (cases r)
    case (Inl err)
    then show ?thesis by (simp add: Value_Store_def split: option.split)
  next
    case (Inr d)
    obtain c s' where st: "outbound_step e s d = (c, s')" by (cases "outbound_step e s d")
    show ?thesis
    proof (cases c)
      case Loop
      with Cons Inr st show ?thesis by simp
    next
      case Returns
      with st have "fst (outbound_datagram e (s\<lparr>buf := snd (tunnel_Read (buf s) d)\<rparr>) (length d)) = Returns"
        by (simp add: outbound_step_def tunnel_Read_def)
      then have "udpErr (snd (outbound_datagram e (s\<lparr>buf := snd (tunnel_Read (buf s) d)\<rparr>) (length d))) \<noteq> None"
        by (rule outbound_datagram_returns)
      with st have "udpErr s' \<noteq> None"
        by (simp add: outbound_step_def tunnel_Read_def)
      with Returns Inr st show ?thesis by simp
    next
      case Panics
      with Cons Inr st show ?thesis by simp
    qed
  qed
qed

subsection \<open>The error box\<close>

lemma box_inv_step: "box_inv s \<Longrightarrow> box_inv (box_step ty e_out e_in s p)"
  by (cases p; cases "inbound_at s")
     (simp_all add: box_inv_def Value_Store_def split: option.split)

lemma box_inv_foldl: "box_inv s \<Longrightarrow> box_inv (foldl (box_step ty e_out e_in) s schedule)"
  by (induction schedule arbitrary: s) (simp_all add: box_inv_step)

lemma slot_is_last_store:
  "slot (box_run ty e_out e_in schedule) =
     (if stores (box_run ty e_out e_in schedule) = [] then None
      else Some (last (stores (box_run ty e_out e_in schedule))))"
  using box_inv_foldl [of box_init ty e_out e_in schedule]
  by (simp add: box_run_def box_inv_def box_init_def)

text \<open>
  C2 fails on the code. The inbound pump ends first (its write to the tunnel fails): it
  loads \<^verbatim>\<open>nil\<close> and stores its error. The outbound pump ends later (its read fails) and
  stores its error, of the same concrete type, without looking at the box. The session
  returns the later error of the outbound pump, not the error recorded first.
\<close>

theorem later_error_replaces_first:
  "stores (box_run sample_types (External ''read: connection reset by peer'')
            (External ''write: broken pipe'') [InboundPump, InboundPump, OutboundPump])
     = [External ''write: broken pipe'', External ''read: connection reset by peer''] \<and>
   wait_and_load (box_run sample_types (External ''read: connection reset by peer'')
            (External ''write: broken pipe'') [InboundPump, InboundPump, OutboundPump])
     = Some (Return (Some (External ''read: connection reset by peer'')))"
  by (simp add: box_run_def box_init_def wait_and_load_def Value_Store_def sample_types_def)

text \<open>
  In the same schedule with errors of two concrete types (the outbound pump ends on a
  malformed datagram) the second store panics: the session returns no error at all.
\<close>

lemma later_error_other_type:
  "wait_and_load (box_run sample_types ErrNoEnoughData (External ''write: broken pipe'')
     [InboundPump, InboundPump, OutboundPump]) = Some Panicked"
  by (simp add: box_run_def box_init_def wait_and_load_def Value_Store_def sample_types_def)

text \<open>
  The load and the store of the inbound pump are two operations: when the store of the
  outbound pump falls between them, the error of the inbound pump (of the same concrete
  type) replaces the error stored first. An error stored by the outbound pump before the
  inbound pump loads is kept.
\<close>

lemma load_store_race:
  assumes "ty e_out = ty e_in"
  shows "stores (box_run ty e_out e_in [InboundPump, OutboundPump, InboundPump]) = [e_out, e_in] \<and>
         wait_and_load (box_run ty e_out e_in [InboundPump, OutboundPump, InboundPump])
           = Some (Return (Some e_in))"
  using assms
  by (simp add: box_run_def box_init_def wait_and_load_def Value_Store_def)

lemma outbound_first_kept:
  "wait_and_load (box_run ty e_out e_in (OutboundPump # InboundPump # schedule))
     = Some (Return (Some e_out))"
proof -
  have idle: "\<And>s p. outbound_done s \<Longrightarrow> inbound_at s = InboundDone \<Longrightarrow>
          box_step ty e_out e_in s p = s"
    subgoal for s p by (cases p) simp_all
    done
  have "\<And>s. outbound_done s \<Longrightarrow> inbound_at s = InboundDone \<Longrightarrow>
          foldl (box_step ty e_out e_in) s schedule = s"
    by (induction schedule) (simp_all add: idle)
  then show ?thesis
    by (simp add: box_run_def box_init_def wait_and_load_def Value_Store_def)
qed

end
